theory Spec2Isabelle
  imports Complex_Main
begin

section \<open>Data model (types.ts)\<close>

text \<open>
  JavaScript numbers are modelled as exact rationals. Strings are \<open>string\<close>.
  A field that may be \<open>null\<close> or \<open>undefined\<close> is an \<open>option\<close>.
\<close>

type_synonym num = rat

datatype BackgroundType = Wallpaper | Gradient | Solid | Image

datatype GradientDirection =
    ToRight | ToLeft | ToBottom | ToTop
  | ToBottomRight | ToBottomLeft | ToTopRight | ToTopLeft

record GradientConfig =
  g_start :: string
  g_end :: string
  g_direction :: GradientDirection

record BackgroundConfig =
  bg_type :: BackgroundType
  bg_solid :: string
  bg_gradient :: GradientConfig
  bg_image :: string
  bg_blur :: num

datatype ShadowSize = ShNone | ShSm | ShMd | ShLg | ShXl | Sh2xl

record ShadowConfig =
  sh_size :: ShadowSize
  sh_color :: string
  sh_opacity :: num

datatype ExportFormat = Png | Jpeg | Webp

text \<open>The four string literals \<open>'16/9' | '4/3' | '1/1' | '9/16'\<close>.\<close>

datatype AspectRatio = AR_16_9 | AR_4_3 | AR_1_1 | AR_9_16

record EditorSettings =
  padding :: num
  borderRadius :: num
  rotateDeg :: num
  scale :: num
  aspectRatio :: AspectRatio
  background :: BackgroundConfig
  shadow :: ShadowConfig
  darkModeWindow :: bool
  outputFormat :: ExportFormat

record GeneratedPalette =
  colors :: "string list"
  description :: "string option"

text \<open>A value at run time, as \<open>JSON.parse\<close> may return it and as an object literal of
  the code is; an object is the list of its keys and values in the order written.\<close>

datatype JsValue =
    JsNull
  | JsBool bool
  | JsNumber num
  | JsString string
  | JsArray "JsValue list"
  | JsObject "(string \<times> JsValue) list"

text \<open>\<open>Partial<EditorSettings>\<close>: every key may be absent.\<close>

record PartialSettings =
  p_padding :: "num option"
  p_borderRadius :: "num option"
  p_rotateDeg :: "num option"
  p_scale :: "num option"
  p_aspectRatio :: "AspectRatio option"
  p_background :: "BackgroundConfig option"
  p_shadow :: "ShadowConfig option"
  p_darkModeWindow :: "bool option"
  p_outputFormat :: "ExportFormat option"

definition noChange :: PartialSettings where
  "noChange = \<lparr>p_padding = None, p_borderRadius = None, p_rotateDeg = None, p_scale = None,
     p_aspectRatio = None, p_background = None, p_shadow = None, p_darkModeWindow = None,
     p_outputFormat = None\<rparr>"

section \<open>Application state (App.tsx)\<close>

record AppState =
  cur_image :: "string option"
  isAnalyzing :: bool
  settings :: EditorSettings

text \<open>The initial value of the \<open>settings\<close> state in \<open>App\<close>.\<close>

definition initialSettings :: EditorSettings where
  "initialSettings = \<lparr>padding = 64, borderRadius = 16, rotateDeg = 0, scale = 1,
     aspectRatio = AR_16_9,
     background = \<lparr>bg_type = Wallpaper, bg_solid = ''#1a1a1a'',
       bg_gradient = \<lparr>g_start = ''#09203f'', g_end = ''#537895'', g_direction = ToTop\<rparr>,
       bg_image = '''', bg_blur = 0\<rparr>,
     shadow = \<lparr>sh_size = ShXl, sh_color = ''#000000'', sh_opacity = 1 / 2\<rparr>,
     darkModeWindow = True, outputFormat = Jpeg\<rparr>"

definition initialState :: AppState where
  "initialState = \<lparr>cur_image = None, isAnalyzing = False, settings = initialSettings\<rparr>"

text \<open>The object spread \<open>{ ...prev, ...newSettings }\<close>: a key of \<open>newSettings\<close> replaces
  the key of \<open>prev\<close>, whole value for whole value (a shallow merge).\<close>

definition spread :: "EditorSettings \<Rightarrow> PartialSettings \<Rightarrow> EditorSettings" where
  "spread prev new =
     \<lparr>padding = (case p_padding new of None \<Rightarrow> padding prev | Some v \<Rightarrow> v),
      borderRadius = (case p_borderRadius new of None \<Rightarrow> borderRadius prev | Some v \<Rightarrow> v),
      rotateDeg = (case p_rotateDeg new of None \<Rightarrow> rotateDeg prev | Some v \<Rightarrow> v),
      scale = (case p_scale new of None \<Rightarrow> scale prev | Some v \<Rightarrow> v),
      aspectRatio = (case p_aspectRatio new of None \<Rightarrow> aspectRatio prev | Some v \<Rightarrow> v),
      background = (case p_background new of None \<Rightarrow> background prev | Some v \<Rightarrow> v),
      shadow = (case p_shadow new of None \<Rightarrow> shadow prev | Some v \<Rightarrow> v),
      darkModeWindow = (case p_darkModeWindow new of None \<Rightarrow> darkModeWindow prev | Some v \<Rightarrow> v),
      outputFormat = (case p_outputFormat new of None \<Rightarrow> outputFormat prev | Some v \<Rightarrow> v)\<rparr>"

text \<open>\<open>updateSettings = newSettings => setSettings(prev => ({ ...prev, ...newSettings }))\<close>\<close>

definition updateSettings :: "PartialSettings \<Rightarrow> AppState \<Rightarrow> AppState" where
  "updateSettings newSettings st = st\<lparr>settings := spread (settings st) newSettings\<rparr>"

section \<open>Sidebar handlers (Sidebar.tsx)\<close>

text \<open>\<open>setBgType = type => updateSettings({ background: { ...settings.background, type } })\<close>,
  where \<open>settings\<close> is the prop the sidebar was rendered with, the current state.\<close>

definition setBgType :: "BackgroundType \<Rightarrow> AppState \<Rightarrow> AppState" where
  "setBgType t st =
     updateSettings (noChange\<lparr>p_background := Some ((background (settings st))\<lparr>bg_type := t\<rparr>)\<rparr>) st"

section \<open>Canvas (components/Canvas.tsx)\<close>

text \<open>JavaScript truthiness of a \<open>string | null\<close>: neither \<open>null\<close> nor the empty string.\<close>

definition truthy :: "string option \<Rightarrow> bool" where
  "truthy v = (case v of None \<Rightarrow> False | Some s \<Rightarrow> s \<noteq> [])"

text \<open>\<open>settings.aspectRatio.split('/').map(Number)\<close> on each of the four literals.\<close>

fun aspectParts :: "AspectRatio \<Rightarrow> num \<times> num" where
  "aspectParts AR_16_9 = (16, 9)"
| "aspectParts AR_4_3 = (4, 3)"
| "aspectParts AR_1_1 = (1, 1)"
| "aspectParts AR_9_16 = (9, 16)"

definition baseWidth :: num where
  "baseWidth = 1200"

definition baseHeight :: "EditorSettings \<Rightarrow> num" where
  "baseHeight s = (case aspectParts (aspectRatio s) of (aspectW, aspectH) \<Rightarrow>
     baseWidth * (aspectH / aspectW))"

definition headerHeight :: num where
  "headerHeight = 32"

definition maxImgWidth :: "EditorSettings \<Rightarrow> num" where
  "maxImgWidth s = baseWidth - (padding s * 2)"

definition maxImgHeight :: "EditorSettings \<Rightarrow> num" where
  "maxImgHeight s = max 0 (baseHeight s - (padding s * 2) - headerHeight)"

text \<open>\<open>calculateScale\<close>: the argument is \<open>containerRef.current\<close> as its \<open>clientWidth\<close> and
  \<open>clientHeight\<close>, or \<open>None\<close> when the ref is empty; the result is the new \<open>previewScale\<close>
  (the old one when the function returns early).\<close>

definition calculateScale :: "(num \<times> num) option \<Rightarrow> EditorSettings \<Rightarrow> num \<Rightarrow> num" where
  "calculateScale container s previewScale =
     (case container of
        None \<Rightarrow> previewScale
      | Some (clientWidth, clientHeight) \<Rightarrow>
          (let pad = 60;
               availableWidth = clientWidth - pad;
               availableHeight = clientHeight - pad;
               bw = 1200;
               bh = (case aspectParts (aspectRatio s) of (w, h) \<Rightarrow> bw * (h / w));
               scaleX = availableWidth / bw;
               scaleY = availableHeight / bh
           in min 1 (min scaleX scaleY)))"

fun getShadowClass :: "ShadowSize \<Rightarrow> string" where
  "getShadowClass ShSm = ''shadow-lg shadow-black/20''"
| "getShadowClass ShMd = ''shadow-xl shadow-black/30''"
| "getShadowClass ShLg = ''shadow-2xl shadow-black/40''"
| "getShadowClass ShXl = ''shadow-[0_20px_50px_rgba(0,0,0,0.5)]''"
| "getShadowClass Sh2xl = ''shadow-[0_25px_60px_rgba(0,0,0,0.6)]''"
| "getShadowClass ShNone = ''''"

text \<open>The CSS values the component builds with template literals, kept structured:
  \<open>linear-gradient(d, a, b)\<close>, \<open>url(u)\<close>, \<open>blur(n px)\<close> and \<open>scale(k)\<close>.\<close>

datatype CssImage = LinearGradient GradientDirection string string | Url string

datatype CssFilter = BlurPx num

datatype CssTransform = ScaleBy num

record CSSProperties =
  backgroundColor :: "string option"
  backgroundImage :: "CssImage option"
  backgroundSize :: "string option"
  backgroundPosition :: "string option"
  filter_css :: "CssFilter option"
  transform :: "CssTransform option"

definition emptyStyle :: CSSProperties where
  "emptyStyle = \<lparr>backgroundColor = None, backgroundImage = None, backgroundSize = None,
     backgroundPosition = None, filter_css = None, transform = None\<rparr>"

definition getBackgroundStyle :: "EditorSettings \<Rightarrow> CSSProperties" where
  "getBackgroundStyle s =
     (let b = background s; baseStyle = emptyStyle in
      if bg_type b = Solid then baseStyle\<lparr>backgroundColor := Some (bg_solid b)\<rparr>
      else if bg_type b = Gradient then
        baseStyle\<lparr>backgroundImage :=
          Some (LinearGradient (g_direction (bg_gradient b)) (g_start (bg_gradient b))
                  (g_end (bg_gradient b)))\<rparr>
      else if bg_type b = Wallpaper \<or> bg_type b = Image then
        (let st1 = baseStyle\<lparr>backgroundImage := Some (Url (bg_image b)),
                              backgroundSize := Some ''cover'',
                              backgroundPosition := Some ''center''\<rparr>
         in if bg_blur b > 0
            then st1\<lparr>filter_css := Some (BlurPx (bg_blur b)),
                     transform := Some (ScaleBy (105 / 100))\<rparr>
            else st1)
      else baseStyle\<lparr>backgroundColor := Some ''#000''\<rparr>)"

text \<open>The rendered tree, as far as export reads it: the scaled container, and inside it
  the node \<open>exportRef\<close> points to, present only while an image is loaded.\<close>

record ImgElem =
  img_src :: string
  img_maxWidth :: num
  img_maxHeight :: num

record WindowElem =
  win_shadowClass :: string
  win_borderRadius :: num
  win_scale :: num
  win_backgroundColor :: string
  win_headerClass :: string
  win_img :: ImgElem

record ExportFrame =
  frame_width :: num
  frame_height :: num
  frame_padding :: num
  frame_background :: CSSProperties
  frame_window :: WindowElem

record CanvasView =
  containerScale :: num
  exportNode :: "ExportFrame option"
  resetButton :: bool

definition renderFrame :: "EditorSettings \<Rightarrow> string \<Rightarrow> ExportFrame" where
  "renderFrame s src =
     \<lparr>frame_width = baseWidth,
      frame_height = baseHeight s,
      frame_padding = padding s,
      frame_background = getBackgroundStyle s,
      frame_window =
        \<lparr>win_shadowClass = getShadowClass (sh_size (shadow s)),
         win_borderRadius = borderRadius s,
         win_scale = scale s,
         win_backgroundColor = (if darkModeWindow s then ''#1e1e20'' else ''#ffffff''),
         win_headerClass = (if darkModeWindow s then ''bg-[#2a2a2c]'' else ''bg-[#f0f0f0]''),
         win_img = \<lparr>img_src = src, img_maxWidth = maxImgWidth s,
                    img_maxHeight = maxImgHeight s\<rparr>\<rparr>\<rparr>"

definition Canvas :: "EditorSettings \<Rightarrow> string option \<Rightarrow> num \<Rightarrow> CanvasView" where
  "Canvas s img previewScale =
     \<lparr>containerScale = previewScale,
      exportNode = (case img of
                      None \<Rightarrow> None
                    | Some src \<Rightarrow> if src \<noteq> [] then Some (renderFrame s src) else None),
      resetButton = truthy img\<rparr>"

section \<open>String operations of JavaScript\<close>

text \<open>\<open>s.startsWith(p)\<close>\<close>

fun startsWith :: "string \<Rightarrow> string \<Rightarrow> bool" where
  "startsWith s [] = True"
| "startsWith [] (p # ps) = False"
| "startsWith (c # cs) (p # ps) = (c = p \<and> startsWith cs ps)"

text \<open>\<open>s.includes(p)\<close>, which is also \<open>s.indexOf(p) !== -1\<close>\<close>

fun str_includes :: "string \<Rightarrow> string \<Rightarrow> bool" where
  "str_includes [] p = (p = [])"
| "str_includes (c # cs) p = (startsWith (c # cs) p \<or> str_includes cs p)"

text \<open>\<open>s.split(sep)\<close> for a non-empty separator: \<open>splitFrom sep acc s\<close> has read \<open>rev acc\<close>
  of the current piece and goes on with \<open>s\<close>.\<close>

function splitFrom :: "string \<Rightarrow> string \<Rightarrow> string \<Rightarrow> string list" where
  "splitFrom sep acc [] = [rev acc]"
| "splitFrom sep acc (c # cs) =
     (if sep \<noteq> [] \<and> startsWith (c # cs) sep
      then rev acc # splitFrom sep [] (drop (length sep) (c # cs))
      else splitFrom sep (c # acc) cs)"
  by pat_completeness auto
termination
  by (relation "measure (\<lambda>(sep, acc, s). length s)") auto

definition split :: "string \<Rightarrow> string \<Rightarrow> string list" where
  "split s sep = splitFrom sep [] s"

section \<open>The outside world of the handlers\<close>

record Blob =
  blob_type :: string
  blob_bytes :: string

text \<open>The options object passed to \<open>toPng\<close>, \<open>toJpeg\<close> and \<open>toBlob\<close> of html-to-image;
  a key that is not written is \<open>None\<close>.\<close>

record RasterOptions =
  opt_cacheBust :: bool
  opt_pixelRatio :: num
  opt_quality :: "num option"
  opt_backgroundColor :: "string option"
  opt_type :: "string option"

text \<open>What the browser and the rasterization library answer. A promise that rejects (or a
  call that throws) is \<open>None\<close>; \<open>toBlob\<close> may also resolve to \<open>null\<close>, which is \<open>Some None\<close>.
  \<open>env_exportBtn\<close> is the \<open>innerText\<close> of the element with id \<open>export-btn\<close>, if there is one.\<close>

record Env =
  env_toPng :: "ExportFrame \<Rightarrow> RasterOptions \<Rightarrow> string option"
  env_toJpeg :: "ExportFrame \<Rightarrow> RasterOptions \<Rightarrow> string option"
  env_toBlob :: "ExportFrame \<Rightarrow> RasterOptions \<Rightarrow> Blob option option"
  env_createObjectURL :: "Blob \<Rightarrow> string"
  env_clipboardWrite :: "Blob \<Rightarrow> bool"
  env_exportBtn :: "string option"

text \<open>The calls a handler makes on the outside world, in the order it makes them.\<close>

datatype Effect =
    SetBtnText string
  | Settle nat
  | CallToPng ExportFrame RasterOptions
  | CallToJpeg ExportFrame RasterOptions
  | CallToBlob ExportFrame RasterOptions
  | CreateObjectURL Blob string
  | LinkClick string string
  | RevokeObjectURL string
  | ClipboardWrite Blob
  | PreventDefault
  | ConsoleWarn string
  | ConsoleError string
  | Alert string

text \<open>The blob URL store of the browser, replayed over a trace: \<open>createObjectURL\<close> adds the
  URL it returns, \<open>revokeObjectURL\<close> removes the URL it is given.\<close>

fun liveObjectURLs :: "Effect list \<Rightarrow> string list \<Rightarrow> string list" where
  "liveObjectURLs [] live = live"
| "liveObjectURLs (CreateObjectURL b u # es) live = liveObjectURLs es (u # live)"
| "liveObjectURLs (RevokeObjectURL u # es) live = liveObjectURLs es (removeAll u live)"
| "liveObjectURLs (e # es) live = liveObjectURLs es live"

section \<open>Image ingestion (App.tsx)\<close>

text \<open>A \<open>File\<close>: its MIME type, and what \<open>FileReader.readAsDataURL\<close> delivers to \<open>onload\<close>
  (\<open>None\<close> when the read fails and \<open>onload\<close> is never called).\<close>

record File =
  file_type :: string
  file_dataURL :: "string option"

record DataTransferItem =
  item_type :: string
  item_getAsFile :: "File option"

definition processFile :: "File option \<Rightarrow> AppState \<Rightarrow> AppState \<times> Effect list" where
  "processFile file st =
     (case file of
        None \<Rightarrow> (st, [])
      | Some f \<Rightarrow>
          if \<not> startsWith (file_type f) ''image/'' then (st, [])
          else (case file_dataURL f of
                  None \<Rightarrow> (st, [])
                | Some result \<Rightarrow> (st\<lparr>cur_image := Some result\<rparr>, [])))"

text \<open>The loop of \<open>handlePaste\<close> over \<open>e.clipboardData.items\<close>: the first item whose type
  contains \<open>image\<close> ends the loop.\<close>

fun pasteItems :: "DataTransferItem list \<Rightarrow> AppState \<Rightarrow> AppState \<times> Effect list" where
  "pasteItems [] st = (st, [])"
| "pasteItems (it # items) st =
     (if str_includes (item_type it) ''image''
      then (case item_getAsFile it of
              None \<Rightarrow> (st, [])
            | Some file \<Rightarrow>
                (case processFile (Some file) st of (st', es) \<Rightarrow> (st', PreventDefault # es)))
      else pasteItems items st)"

definition handlePaste :: "DataTransferItem list option \<Rightarrow> AppState \<Rightarrow> AppState \<times> Effect list" where
  "handlePaste items st = (case items of None \<Rightarrow> (st, []) | Some its \<Rightarrow> pasteItems its st)"

text \<open>\<open>e.target.files?.[0]\<close>: the first file, if there is a list and it is not empty.\<close>

definition firstFile :: "File list option \<Rightarrow> File option" where
  "firstFile files = (case files of None \<Rightarrow> None | Some [] \<Rightarrow> None | Some (f # fs) \<Rightarrow> Some f)"

definition handleUpload :: "File list option \<Rightarrow> AppState \<Rightarrow> AppState \<times> Effect list" where
  "handleUpload files st =
     (case firstFile files of
        Some f \<Rightarrow> processFile (Some f) st
      | None \<Rightarrow> (st\<lparr>cur_image := None\<rparr>, []))"

text \<open>\<open>handleDrop\<close> of the canvas, whose \<open>onFileDrop\<close> is \<open>processFile\<close>.\<close>

definition handleDrop :: "File list option \<Rightarrow> AppState \<Rightarrow> AppState \<times> Effect list" where
  "handleDrop files st =
     (case firstFile files of
        Some f \<Rightarrow> (case processFile (Some f) st of (st', es) \<Rightarrow> (st', PreventDefault # es))
      | None \<Rightarrow> (st, [PreventDefault]))"

section \<open>Export (App.tsx)\<close>

fun formatName :: "ExportFormat \<Rightarrow> string" where
  "formatName Png = ''png''"
| "formatName Jpeg = ''jpeg''"
| "formatName Webp = ''webp''"

text \<open>\<open>settings.background.type === 'solid' ? settings.background.solid : '#000'\<close>\<close>

definition exportBackgroundColor :: "EditorSettings \<Rightarrow> string" where
  "exportBackgroundColor s =
     (if bg_type (background s) = Solid then bg_solid (background s) else ''#000'')"

definition pngOptions :: RasterOptions where
  "pngOptions = \<lparr>opt_cacheBust = True, opt_pixelRatio = 2, opt_quality = None,
     opt_backgroundColor = None, opt_type = None\<rparr>"

definition jpegOptions :: "EditorSettings \<Rightarrow> RasterOptions" where
  "jpegOptions s = \<lparr>opt_cacheBust = True, opt_pixelRatio = 2, opt_quality = Some 1,
     opt_backgroundColor = Some (exportBackgroundColor s), opt_type = None\<rparr>"

definition webpOptions :: RasterOptions where
  "webpOptions = \<lparr>opt_cacheBust = True, opt_pixelRatio = 2, opt_quality = None,
     opt_backgroundColor = None, opt_type = Some ''image/webp''\<rparr>"

definition copyOptions :: "EditorSettings \<Rightarrow> RasterOptions" where
  "copyOptions s = \<lparr>opt_cacheBust = True, opt_pixelRatio = 2, opt_quality = None,
     opt_backgroundColor = Some (exportBackgroundColor s), opt_type = Some ''image/png''\<rparr>"

text \<open>The first half of the \<open>try\<close> block of \<open>handleDownload\<close>: the settle delay and the
  branch on \<open>settings.outputFormat\<close>. The result is the trace and \<open>downloadUrl\<close>, or
  \<open>None\<close> in its place when the awaited call rejects.\<close>

definition rasterize :: "Env \<Rightarrow> EditorSettings \<Rightarrow> ExportFrame \<Rightarrow> Effect list \<times> string option" where
  "rasterize env s node =
     (if outputFormat s = Png then
        ([Settle 100, CallToPng node pngOptions], env_toPng env node pngOptions)
      else if outputFormat s = Jpeg then
        ([Settle 100, CallToJpeg node (jpegOptions s)], env_toJpeg env node (jpegOptions s))
      else if outputFormat s = Webp then
        (case env_toBlob env node webpOptions of
           None \<Rightarrow> ([Settle 100, CallToBlob node webpOptions], None)
         | Some None \<Rightarrow> ([Settle 100, CallToBlob node webpOptions], Some '''')
         | Some (Some blob) \<Rightarrow>
             ([Settle 100, CallToBlob node webpOptions,
               CreateObjectURL blob (env_createObjectURL env blob)],
              Some (env_createObjectURL env blob)))
      else ([Settle 100], Some ''''))"

text \<open>The second half of the \<open>try\<close> block: \<open>if (downloadUrl) { ... }\<close>.\<close>

definition triggerDownload :: "EditorSettings \<Rightarrow> string \<Rightarrow> Effect list" where
  "triggerDownload s downloadUrl =
     (if downloadUrl \<noteq> [] then
        LinkClick (''screenshot-studio-export.'' @ formatName (outputFormat s)) downloadUrl
        # (if outputFormat s = Webp then [RevokeObjectURL downloadUrl] else [])
      else [])"

definition exportFailedMessage :: string where
  "exportFailedMessage =
     ''Could not export image. If this persists, please try a different background or browser.''"

text \<open>\<open>handleDownload\<close>. The arguments after the environment are what the closure reads:
  \<open>settings\<close>, \<open>exportRef.current\<close> and \<open>image\<close>. The result is the trace and whether an
  exception leaves the handler.\<close>

definition handleDownload ::
  "Env \<Rightarrow> EditorSettings \<Rightarrow> ExportFrame option \<Rightarrow> string option \<Rightarrow> Effect list \<times> bool" where
  "handleDownload env s exportRef img =
     (case exportRef of
        None \<Rightarrow> ([], False)
      | Some node \<Rightarrow>
          if \<not> truthy img then ([], False)
          else
            (let originalText = env_exportBtn env;
                 before = (case env_exportBtn env of
                             None \<Rightarrow> []
                           | Some t \<Rightarrow> [SetBtnText ''Generating...'']);
                 body = (case rasterize env s node of
                           (es, Some downloadUrl) \<Rightarrow> es @ triggerDownload s downloadUrl
                         | (es, None) \<Rightarrow>
                             es @ [ConsoleError ''Export failed:'', Alert exportFailedMessage]);
                 finally = (case originalText of
                              None \<Rightarrow> []
                            | Some t \<Rightarrow> if t \<noteq> [] then [SetBtnText t] else [])
             in (before @ body @ finally, False)))"

text \<open>\<open>handleCopy\<close>, which has no \<open>try\<close>: a rejection of \<open>toBlob\<close> or of the clipboard
  write leaves the handler.\<close>

definition handleCopy ::
  "Env \<Rightarrow> EditorSettings \<Rightarrow> ExportFrame option \<Rightarrow> string option \<Rightarrow> Effect list \<times> bool" where
  "handleCopy env s exportRef img =
     (case exportRef of
        None \<Rightarrow> ([], False)
      | Some node \<Rightarrow>
          if \<not> truthy img then ([], False)
          else
            (case env_toBlob env node (copyOptions s) of
               None \<Rightarrow> ([Settle 100, CallToBlob node (copyOptions s)], True)
             | Some None \<Rightarrow> ([Settle 100, CallToBlob node (copyOptions s)], False)
             | Some (Some blob) \<Rightarrow>
                 ([Settle 100, CallToBlob node (copyOptions s), ClipboardWrite blob],
                  \<not> env_clipboardWrite env blob)))"

section \<open>Palette service (services/geminiService.ts)\<close>

record PaletteRequest =
  req_model :: string
  req_data :: string
  req_mimeType :: string
  req_text :: string

text \<open>The module-level \<open>apiKey\<close>, the remote call \<open>ai.models.generateContent\<close> (\<open>None\<close>: it
  rejects; otherwise \<open>response.text\<close>, which may be undefined) and \<open>JSON.parse\<close> (\<open>None\<close>: it
  throws a syntax error; otherwise the value parsed, whatever its shape).\<close>

record GeminiEnv =
  apiKey :: string
  generateContent :: "PaletteRequest \<Rightarrow> string option option"
  JSON_parse :: "string \<Rightarrow> JsValue option"

definition promptText :: string where
  "promptText = ''Analyze this image and generate a color palette of 3 distinct colors that would look good as a background gradient for this screenshot. Also provide a very short 5-word description of the image style.''"

definition cleanBase64 :: "string \<Rightarrow> string" where
  "cleanBase64 base64Image =
     (if str_includes base64Image ''base64,''
      then split base64Image ''base64,'' ! 1
      else base64Image)"

text \<open>The argument of \<open>generateContent\<close>.\<close>

definition paletteRequest :: "string \<Rightarrow> PaletteRequest" where
  "paletteRequest base64Image =
     \<lparr>req_model = ''gemini-2.5-flash'', req_data = cleanBase64 base64Image,
      req_mimeType = ''image/png'', req_text = promptText\<rparr>"

text \<open>The \<open>try\<close> block of \<open>generateSmartPalette\<close>; \<open>Inl\<close> is a thrown exception. The cast
  \<open>as GeneratedPalette\<close> checks nothing: the value parsed is returned as it is.\<close>

definition requestPalette :: "GeminiEnv \<Rightarrow> string \<Rightarrow> string + JsValue" where
  "requestPalette g base64Image =
     (case generateContent g (paletteRequest base64Image) of
        None \<Rightarrow> Inl ''generateContent rejected''
      | Some None \<Rightarrow> Inl ''Empty response from Gemini''
      | Some (Some jsonText) \<Rightarrow>
          if jsonText = [] then Inl ''Empty response from Gemini''
          else (case JSON_parse g jsonText of
                  None \<Rightarrow> Inl ''SyntaxError''
                | Some data \<Rightarrow> Inr data))"

text \<open>\<open>{ colors: ['#3b82f6', '#8b5cf6', '#ec4899'] }\<close>\<close>

definition fallbackNoKey :: JsValue where
  "fallbackNoKey =
     JsObject [(''colors'', JsArray [JsString ''#3b82f6'', JsString ''#8b5cf6'', JsString ''#ec4899''])]"

text \<open>\<open>{ colors: ['#18181b', '#27272a', '#3f3f46'], description: "Fallback Dark Mode" }\<close>\<close>

definition fallbackFailed :: JsValue where
  "fallbackFailed =
     JsObject [(''colors'', JsArray [JsString ''#18181b'', JsString ''#27272a'', JsString ''#3f3f46'']),
               (''description'', JsString ''Fallback Dark Mode'')]"

text \<open>\<open>generateSmartPalette\<close>: what the promise settles to (\<open>Inl\<close>: it rejects) and what
  is logged.\<close>

definition generateSmartPalette ::
  "GeminiEnv \<Rightarrow> string \<Rightarrow> (string + JsValue) \<times> Effect list" where
  "generateSmartPalette g base64Image =
     (if apiKey g = [] then
        (Inr fallbackNoKey, [ConsoleWarn ''No API Key provided for Gemini.''])
      else
        (case requestPalette g base64Image of
           Inr data \<Rightarrow> (Inr data, [])
         | Inl error \<Rightarrow> (Inr fallbackFailed, [ConsoleError ''Gemini analysis failed:''])))"

section \<open>Smart palette (Sidebar.tsx, the revision with the AI Match button)\<close>

text \<open>\<open>handleSmartPalette\<close>, over any palette service \<open>gen\<close> that answers at the type its
  signature declares, \<open>Promise<GeneratedPalette>\<close>; \<open>imageData\<close> is the loaded image and
  \<open>settings\<close> the prop of the render the handler belongs to.\<close>

definition handleSmartPalette ::
  "(string \<Rightarrow> (string + GeneratedPalette) \<times> Effect list) \<Rightarrow> AppState \<Rightarrow> AppState \<times> Effect list" where
  "handleSmartPalette gen st =
     (case cur_image st of
        None \<Rightarrow> (st, [])
      | Some imageData \<Rightarrow>
          if imageData = [] then (st, [])
          else
            (case gen imageData of
               (Inr result, es) \<Rightarrow>
                 if length (colors result) \<ge> 2 then
                   ((updateSettings
                       (noChange\<lparr>p_background := Some ((background (settings st))
                          \<lparr>bg_type := Gradient,
                           bg_gradient :=
                             \<lparr>g_start = colors result ! 0,
                              g_end = colors result ! (length (colors result) - 1),
                              g_direction = ToBottomRight\<rparr>\<rparr>)\<rparr>)
                       (st\<lparr>isAnalyzing := True\<rparr>))\<lparr>isAnalyzing := False\<rparr>, es)
                 else (st\<lparr>isAnalyzing := False\<rparr>, es)
             | (Inl e, es) \<Rightarrow> (st\<lparr>isAnalyzing := False\<rparr>, es @ [ConsoleError e])))"

section \<open>Observations on traces\<close>

text \<open>The calls of the rasterization library in a trace.\<close>

fun isRasterCall :: "Effect \<Rightarrow> bool" where
  "isRasterCall (CallToPng n opts) = True"
| "isRasterCall (CallToJpeg n opts) = True"
| "isRasterCall (CallToBlob n opts) = True"
| "isRasterCall e = False"

text \<open>The logical width and height of the node and the pixel ratio of a call.\<close>

fun rasterSize :: "Effect \<Rightarrow> num \<times> num \<times> num" where
  "rasterSize (CallToPng n opts) = (frame_width n, frame_height n, opt_pixelRatio opts)"
| "rasterSize (CallToJpeg n opts) = (frame_width n, frame_height n, opt_pixelRatio opts)"
| "rasterSize (CallToBlob n opts) = (frame_width n, frame_height n, opt_pixelRatio opts)"
| "rasterSize e = (0, 0, 0)"

section \<open>Example values\<close>

definition rejecting :: "PaletteRequest \<Rightarrow> string option option" where
  "rejecting r = None"

definition noText :: "PaletteRequest \<Rightarrow> string option option" where
  "noText r = Some None"

definition emptyText :: "PaletteRequest \<Rightarrow> string option option" where
  "emptyText r = Some (Some [])"

definition garbledText :: "PaletteRequest \<Rightarrow> string option option" where
  "garbledText r = Some (Some ''<html>Bad Gateway</html>'')"

definition nullText :: "PaletteRequest \<Rightarrow> string option option" where
  "nullText r = Some (Some ''null'')"

definition answering :: "PaletteRequest \<Rightarrow> string option option" where
  \<open>answering r = Some (Some ''{"colors":["#111111","#222222","#333333"]}'')\<close>

definition exampleParse :: "string \<Rightarrow> JsValue option" where
  \<open>exampleParse t =
     (if t = ''null'' then Some JsNull
      else if t = ''{"colors":["#111111","#222222","#333333"]}''
      then Some (JsObject [(''colors'',
             JsArray [JsString ''#111111'', JsString ''#222222'', JsString ''#333333''])])
      else None)\<close>

definition geminiNoKey :: GeminiEnv where
  "geminiNoKey = \<lparr>apiKey = [], generateContent = answering, JSON_parse = exampleParse\<rparr>"

definition geminiDown :: GeminiEnv where
  "geminiDown = \<lparr>apiKey = ''key'', generateContent = rejecting, JSON_parse = exampleParse\<rparr>"

definition geminiSilent :: GeminiEnv where
  "geminiSilent = \<lparr>apiKey = ''key'', generateContent = noText, JSON_parse = exampleParse\<rparr>"

definition geminiEmpty :: GeminiEnv where
  "geminiEmpty = \<lparr>apiKey = ''key'', generateContent = emptyText, JSON_parse = exampleParse\<rparr>"

definition geminiGarbled :: GeminiEnv where
  "geminiGarbled = \<lparr>apiKey = ''key'', generateContent = garbledText, JSON_parse = exampleParse\<rparr>"

definition geminiNull :: GeminiEnv where
  "geminiNull = \<lparr>apiKey = ''key'', generateContent = nullText, JSON_parse = exampleParse\<rparr>"

definition geminiUp :: GeminiEnv where
  "geminiUp = \<lparr>apiKey = ''key'', generateContent = answering, JSON_parse = exampleParse\<rparr>"

text \<open>A palette service that answers \<open>{colors: ["#111111", "#222222", "#333333"]}\<close>.\<close>

definition exampleService :: "string \<Rightarrow> (string + GeneratedPalette) \<times> Effect list" where
  "exampleService base64Image =
     (Inr \<lparr>colors = [''#111111'', ''#222222'', ''#333333''], description = None\<rparr>, [])"

definition exampleImage :: string where
  "exampleImage = ''data:image/png;base64,iVBORw0KGgo=''"

definition loadedState :: AppState where
  "loadedState = initialState\<lparr>cur_image := Some exampleImage\<rparr>"

definition exampleBlob :: Blob where
  "exampleBlob = \<lparr>blob_type = ''image/webp'', blob_bytes = ''RIFF''\<rparr>"

definition pngUrl :: "ExportFrame \<Rightarrow> RasterOptions \<Rightarrow> string option" where
  "pngUrl n opts = Some ''data:image/png;base64,AAAA''"

definition jpegUrl :: "ExportFrame \<Rightarrow> RasterOptions \<Rightarrow> string option" where
  "jpegUrl n opts = Some ''data:image/jpeg;base64,AAAA''"

definition blobOf :: "ExportFrame \<Rightarrow> RasterOptions \<Rightarrow> Blob option option" where
  "blobOf n opts = Some (Some exampleBlob)"

definition objectUrlOf :: "Blob \<Rightarrow> string" where
  "objectUrlOf b = ''blob:http://localhost/1''"

definition writeOk :: "Blob \<Rightarrow> bool" where
  "writeOk b = True"

definition exampleEnv :: Env where
  "exampleEnv = \<lparr>env_toPng = pngUrl, env_toJpeg = jpegUrl, env_toBlob = blobOf,
     env_createObjectURL = objectUrlOf, env_clipboardWrite = writeOk,
     env_exportBtn = Some ''Export''\<rparr>"

text \<open>The settings once the default wallpaper is loaded, and with an uploaded background
  image blurred by 10 pixels.\<close>

definition wallpaperSettings :: EditorSettings where
  "wallpaperSettings = initialSettings\<lparr>background := (background initialSettings)
     \<lparr>bg_image := ''/wallpapers/hires/gradient-wallpaper-0001.jpg''\<rparr>\<rparr>"

definition blurredSettings :: EditorSettings where
  "blurredSettings = initialSettings\<lparr>background := (background initialSettings)
     \<lparr>bg_type := Image, bg_image := exampleImage, bg_blur := 10\<rparr>\<rparr>"

definition pdfFile :: File where
  "pdfFile = \<lparr>file_type = ''application/pdf'',
     file_dataURL = Some ''data:application/pdf;base64,JVBE''\<rparr>"

definition textItem :: DataTransferItem where
  "textItem = \<lparr>item_type = ''text/plain'', item_getAsFile = None\<rparr>"

definition oddItem :: DataTransferItem where
  "oddItem = \<lparr>item_type = ''application/x-image'',
     item_getAsFile = Some \<lparr>file_type = ''application/x-image'', file_dataURL = Some ''data:,''\<rparr>\<rparr>"

section \<open>Theorems\<close>

lemma spread_noChange_background:
  "spread s (noChange\<lparr>p_background := Some b\<rparr>) = s\<lparr>background := b\<rparr>"
  by (simp add: spread_def noChange_def)

text \<open>
  Claim C2. Changing \<open>background.type\<close> replaces only the type discriminant: the solid
  colour, the gradient, the image and the blur of the background record, every other
  setting and the loaded image stay as they were. Hence switching to any type and back
  to the type that was active gives the state before the two switches, and in
  particular the solid colour configured earlier.
\<close>

theorem setBgType_only_type:
  "setBgType t st = st\<lparr>settings := (settings st)\<lparr>background := (background (settings st))\<lparr>bg_type := t\<rparr>\<rparr>\<rparr>
   \<and> bg_type (background (settings (setBgType t st))) = t
   \<and> bg_solid (background (settings (setBgType t st))) = bg_solid (background (settings st))
   \<and> bg_gradient (background (settings (setBgType t st))) = bg_gradient (background (settings st))
   \<and> bg_image (background (settings (setBgType t st))) = bg_image (background (settings st))
   \<and> bg_blur (background (settings (setBgType t st))) = bg_blur (background (settings st))
   \<and> setBgType (bg_type (background (settings st))) (setBgType t st) = st"
  by (simp add: setBgType_def updateSettings_def spread_noChange_background)

lemma baseHeight_cases:
  "baseHeight s = (case aspectRatio s of AR_16_9 \<Rightarrow> 675 | AR_4_3 \<Rightarrow> 900 | AR_1_1 \<Rightarrow> 1200 | AR_9_16 \<Rightarrow> 6400 / 3)"
  by (cases "aspectRatio s") (simp_all add: baseHeight_def baseWidth_def)

lemma exportNode_Canvas:
  "src \<noteq> [] \<Longrightarrow> exportNode (Canvas s (Some src) p) = Some (renderFrame s src)"
  by (simp add: Canvas_def)

lemma rasterize_calls:
  "map rasterSize (filter isRasterCall (fst (rasterize env s node)))
     = [(frame_width node, frame_height node, 2)]"
  by (cases "outputFormat s")
     (auto simp: rasterize_def pngOptions_def jpegOptions_def webpOptions_def
           split: option.splits)

lemma triggerDownload_no_calls: "filter isRasterCall (triggerDownload s u) = []"
  by (simp add: triggerDownload_def)

lemma handleDownload_calls:
  "src \<noteq> [] \<Longrightarrow>
   map rasterSize (filter isRasterCall (fst (handleDownload env s (Some node) (Some src))))
     = [(frame_width node, frame_height node, 2)]"
  using rasterize_calls [of env s node]
  by (cases "rasterize env s node")
     (auto simp: handleDownload_def truthy_def Let_def triggerDownload_no_calls
           split: option.splits)

text \<open>
  Claim C1. While an image is loaded, the node that is exported is the frame rendered
  from the settings alone: 1200 logical units wide and \<open>1200 * h / w\<close> high for the
  aspect ratio \<open>w/h\<close> (675, 900, 1200 and 6400/3 for the four ratios), whatever the
  viewport and the preview scale computed from it are. A download makes exactly one call
  of the rasterization library, on that node and with pixel ratio 2, and the whole
  trace of the download is the same for any two viewports and preview scales.
\<close>

theorem export_dimensions_fixed:
  assumes "src \<noteq> []"
  shows "exportNode (Canvas s (Some src) (calculateScale viewport s p)) = Some (renderFrame s src)
    \<and> frame_width (renderFrame s src) = 1200
    \<and> frame_height (renderFrame s src)
        = 1200 * (snd (aspectParts (aspectRatio s)) / fst (aspectParts (aspectRatio s)))
    \<and> frame_height (renderFrame s src)
        = (case aspectRatio s of AR_16_9 \<Rightarrow> 675 | AR_4_3 \<Rightarrow> 900 | AR_1_1 \<Rightarrow> 1200
           | AR_9_16 \<Rightarrow> 6400 / 3)
    \<and> map rasterSize (filter isRasterCall (fst (handleDownload env s
          (exportNode (Canvas s (Some src) (calculateScale viewport s p))) (Some src))))
        = [(1200, 1200 * (snd (aspectParts (aspectRatio s)) / fst (aspectParts (aspectRatio s))), 2)]
    \<and> handleDownload env s (exportNode (Canvas s (Some src) (calculateScale viewport s p))) (Some src)
        = handleDownload env s (exportNode (Canvas s (Some src) (calculateScale viewport' s p'))) (Some src)"
proof -
  have node: "exportNode (Canvas s (Some src) q) = Some (renderFrame s src)" for q
    using assms by (rule exportNode_Canvas)
  have w: "frame_width (renderFrame s src) = 1200"
    by (simp add: renderFrame_def baseWidth_def)
  have h: "frame_height (renderFrame s src)
        = 1200 * (snd (aspectParts (aspectRatio s)) / fst (aspectParts (aspectRatio s)))"
    by (simp add: renderFrame_def baseHeight_def baseWidth_def split: prod.splits)
  have h': "frame_height (renderFrame s src)
        = (case aspectRatio s of AR_16_9 \<Rightarrow> 675 | AR_4_3 \<Rightarrow> 900 | AR_1_1 \<Rightarrow> 1200
           | AR_9_16 \<Rightarrow> 6400 / 3)"
    by (simp add: renderFrame_def baseHeight_cases)
  have calls: "map rasterSize (filter isRasterCall (fst (handleDownload env s
          (Some (renderFrame s src)) (Some src))))
        = [(1200, 1200 * (snd (aspectParts (aspectRatio s)) / fst (aspectParts (aspectRatio s))), 2)]"
    using handleDownload_calls [OF assms, of env s "renderFrame s src"] w h by simp
  show ?thesis
    using w h h' calls by (simp add: node)
qed

theorem export_dimensions_fixed_witness:
  "exampleImage \<noteq> []
   \<and> map rasterSize (filter isRasterCall (fst (handleDownload exampleEnv
         (initialSettings\<lparr>aspectRatio := AR_9_16\<rparr>)
         (exportNode (Canvas (initialSettings\<lparr>aspectRatio := AR_9_16\<rparr>) (Some exampleImage)
            (calculateScale (Some (800, 600)) (initialSettings\<lparr>aspectRatio := AR_9_16\<rparr>) 1)))
         (Some exampleImage))))
      = [(1200, 6400 / 3, 2)]"
proof -
  have ne: "exampleImage \<noteq> []" by (simp add: exampleImage_def)
  have "map rasterSize (filter isRasterCall (fst (handleDownload exampleEnv
         (initialSettings\<lparr>aspectRatio := AR_9_16\<rparr>)
         (exportNode (Canvas (initialSettings\<lparr>aspectRatio := AR_9_16\<rparr>) (Some exampleImage)
            (calculateScale (Some (800, 600)) (initialSettings\<lparr>aspectRatio := AR_9_16\<rparr>) 1)))
         (Some exampleImage))))
      = [(1200, 1200 * (snd (aspectParts (aspectRatio (initialSettings\<lparr>aspectRatio := AR_9_16\<rparr>)))
                        / fst (aspectParts (aspectRatio (initialSettings\<lparr>aspectRatio := AR_9_16\<rparr>)))), 2)]"
    using export_dimensions_fixed [OF ne, of "initialSettings\<lparr>aspectRatio := AR_9_16\<rparr>"
        "Some (800, 600)" 1 exampleEnv]
    by blast
  then show ?thesis using ne by simp
qed

text \<open>
  Claim C3. With header height 32 and canvas height \<open>1200 * h / w\<close>, the maximum image
  height is 0 whenever twice the padding plus the header height exceeds the canvas
  height, it is the canvas height minus twice the padding minus the header height
  otherwise, and it is never negative.
\<close>

theorem maxImgHeight_clamped:
  "(2 * padding s + headerHeight > baseHeight s \<longrightarrow> maxImgHeight s = 0)
   \<and> (2 * padding s + headerHeight \<le> baseHeight s \<longrightarrow>
        maxImgHeight s = baseHeight s - 2 * padding s - headerHeight)
   \<and> 0 \<le> maxImgHeight s
   \<and> headerHeight = 32
   \<and> baseHeight s = 1200 * (snd (aspectParts (aspectRatio s)) / fst (aspectParts (aspectRatio s)))"
  by (auto simp: maxImgHeight_def headerHeight_def baseHeight_def baseWidth_def max_def
           split: prod.splits)

theorem maxImgHeight_clamped_witness:
  "2 * padding (initialSettings\<lparr>padding := 400\<rparr>) + headerHeight
      > baseHeight (initialSettings\<lparr>padding := 400\<rparr>)
   \<and> maxImgHeight (initialSettings\<lparr>padding := 400\<rparr>) = 0
   \<and> 2 * padding initialSettings + headerHeight \<le> baseHeight initialSettings
   \<and> maxImgHeight initialSettings = 515"
proof -
  have big: "2 * padding (initialSettings\<lparr>padding := 400\<rparr>) + headerHeight
      > baseHeight (initialSettings\<lparr>padding := 400\<rparr>)"
    by (simp add: initialSettings_def headerHeight_def baseHeight_def baseWidth_def)
  have small: "2 * padding initialSettings + headerHeight \<le> baseHeight initialSettings"
    by (simp add: initialSettings_def headerHeight_def baseHeight_def baseWidth_def)
  have zero: "maxImgHeight (initialSettings\<lparr>padding := 400\<rparr>) = 0"
    using maxImgHeight_clamped [of "initialSettings\<lparr>padding := 400\<rparr>"] big by blast
  have "maxImgHeight initialSettings
          = baseHeight initialSettings - 2 * padding initialSettings - headerHeight"
    using maxImgHeight_clamped [of initialSettings] small by blast
  also have "\<dots> = 515"
    by (simp add: initialSettings_def headerHeight_def baseHeight_def baseWidth_def)
  finally show ?thesis using big small zero by blast
qed

text \<open>
  Claim C7. For a background of type wallpaper or image the style is a bitmap paint with
  size \<open>cover\<close> and position \<open>center\<close>; exactly when the blur is positive it also has
  the filter \<open>blur\<close> of that many pixels and the transform \<open>scale(1.05)\<close>, and it has
  neither of the two otherwise.
\<close>

theorem getBackgroundStyle_bitmap:
  assumes "bg_type (background s) = Wallpaper \<or> bg_type (background s) = Image"
  shows "backgroundImage (getBackgroundStyle s) = Some (Url (bg_image (background s)))
    \<and> backgroundSize (getBackgroundStyle s) = Some ''cover''
    \<and> backgroundPosition (getBackgroundStyle s) = Some ''center''
    \<and> backgroundColor (getBackgroundStyle s) = None
    \<and> (bg_blur (background s) > 0 \<longrightarrow>
          filter_css (getBackgroundStyle s) = Some (BlurPx (bg_blur (background s)))
          \<and> transform (getBackgroundStyle s) = Some (ScaleBy (105 / 100)))
    \<and> (\<not> bg_blur (background s) > 0 \<longrightarrow>
          filter_css (getBackgroundStyle s) = None \<and> transform (getBackgroundStyle s) = None)"
  using assms by (auto simp: getBackgroundStyle_def emptyStyle_def Let_def)

theorem getBackgroundStyle_bitmap_witness:
  "bg_type (background blurredSettings) = Image
   \<and> bg_blur (background blurredSettings) > 0
   \<and> backgroundImage (getBackgroundStyle blurredSettings) = Some (Url exampleImage)
   \<and> backgroundSize (getBackgroundStyle blurredSettings) = Some ''cover''
   \<and> backgroundPosition (getBackgroundStyle blurredSettings) = Some ''center''
   \<and> filter_css (getBackgroundStyle blurredSettings) = Some (BlurPx 10)
   \<and> transform (getBackgroundStyle blurredSettings) = Some (ScaleBy (105 / 100))
   \<and> bg_type (background wallpaperSettings) = Wallpaper
   \<and> \<not> bg_blur (background wallpaperSettings) > 0
   \<and> backgroundImage (getBackgroundStyle wallpaperSettings)
        = Some (Url ''/wallpapers/hires/gradient-wallpaper-0001.jpg'')
   \<and> backgroundSize (getBackgroundStyle wallpaperSettings) = Some ''cover''
   \<and> backgroundPosition (getBackgroundStyle wallpaperSettings) = Some ''center''
   \<and> filter_css (getBackgroundStyle wallpaperSettings) = None
   \<and> transform (getBackgroundStyle wallpaperSettings) = None"
proof -
  have ty1: "bg_type (background blurredSettings) = Image"
    by (simp add: blurredSettings_def)
  have blur1: "bg_blur (background blurredSettings) > 0"
    by (simp add: blurredSettings_def)
  have img1: "bg_image (background blurredSettings) = exampleImage"
    by (simp add: blurredSettings_def)
  have val1: "bg_blur (background blurredSettings) = 10"
    by (simp add: blurredSettings_def)
  have ty2: "bg_type (background wallpaperSettings) = Wallpaper"
    by (simp add: wallpaperSettings_def initialSettings_def)
  have blur2: "\<not> bg_blur (background wallpaperSettings) > 0"
    by (simp add: wallpaperSettings_def initialSettings_def)
  have img2: "bg_image (background wallpaperSettings)
        = ''/wallpapers/hires/gradient-wallpaper-0001.jpg''"
    by (simp add: wallpaperSettings_def)
  have one: "backgroundImage (getBackgroundStyle blurredSettings) = Some (Url exampleImage)
      \<and> backgroundSize (getBackgroundStyle blurredSettings) = Some ''cover''
      \<and> backgroundPosition (getBackgroundStyle blurredSettings) = Some ''center''
      \<and> filter_css (getBackgroundStyle blurredSettings) = Some (BlurPx 10)
      \<and> transform (getBackgroundStyle blurredSettings) = Some (ScaleBy (105 / 100))"
    using getBackgroundStyle_bitmap [of blurredSettings] ty1 blur1
    unfolding img1 val1 by blast
  have two: "backgroundImage (getBackgroundStyle wallpaperSettings)
        = Some (Url ''/wallpapers/hires/gradient-wallpaper-0001.jpg'')
      \<and> backgroundSize (getBackgroundStyle wallpaperSettings) = Some ''cover''
      \<and> backgroundPosition (getBackgroundStyle wallpaperSettings) = Some ''center''
      \<and> filter_css (getBackgroundStyle wallpaperSettings) = None
      \<and> transform (getBackgroundStyle wallpaperSettings) = None"
    using getBackgroundStyle_bitmap [of wallpaperSettings] ty2 blur2
    unfolding img2 by blast
  show ?thesis
    using ty1 blur1 ty2 blur2 one two by blast
qed

lemma updateSettings_background:
  "settings (updateSettings (noChange\<lparr>p_background := Some b\<rparr>) st) = (settings st)\<lparr>background := b\<rparr>"
  by (simp add: updateSettings_def spread_noChange_background)

text \<open>
  Claim C4. When an image is loaded and the palette service answers with at least two
  colours, the smart palette leaves a background whose type is gradient, whose gradient
  starts at the first colour returned, ends at the last one and runs to the bottom
  right; the other fields of the background are kept. For the answer
  \<open>#111111, #222222, #333333\<close> this is the gradient from \<open>#111111\<close> to \<open>#333333\<close>.
\<close>

theorem handleSmartPalette_gradient:
  assumes "cur_image st = Some imageData" and "imageData \<noteq> []"
    and "fst (gen imageData) = Inr result" and "length (colors result) \<ge> 2"
  shows "background (settings (fst (handleSmartPalette gen st)))
      = (background (settings st))
          \<lparr>bg_type := Gradient,
           bg_gradient := \<lparr>g_start = hd (colors result), g_end = last (colors result),
                            g_direction = ToBottomRight\<rparr>\<rparr>"
proof -
  from assms(4) have ne: "colors result \<noteq> []" by auto
  have first: "colors result ! 0 = hd (colors result)"
    using ne by (simp add: hd_conv_nth)
  have lst: "colors result ! (length (colors result) - Suc 0) = last (colors result)"
    using ne by (simp add: last_conv_nth)
  obtain es where g: "gen imageData = (Inr result, es)"
    using assms(3) by (cases "gen imageData") auto
  show ?thesis
    using assms(1,2,4) g
    by (simp add: handleSmartPalette_def updateSettings_background first lst)
qed

theorem handleSmartPalette_gradient_witness:
  "cur_image loadedState = Some exampleImage \<and> exampleImage \<noteq> []
   \<and> fst (exampleService exampleImage)
        = Inr \<lparr>colors = [''#111111'', ''#222222'', ''#333333''], description = None\<rparr>
   \<and> length (colors \<lparr>colors = [''#111111'', ''#222222'', ''#333333''], description = None\<rparr>) \<ge> 2
   \<and> bg_type (background (settings (fst (handleSmartPalette exampleService loadedState)))) = Gradient
   \<and> bg_gradient (background (settings (fst (handleSmartPalette exampleService loadedState))))
        = \<lparr>g_start = ''#111111'', g_end = ''#333333'', g_direction = ToBottomRight\<rparr>"
proof -
  let ?r = "\<lparr>colors = [''#111111'', ''#222222'', ''#333333''], description = None\<rparr>"
  have a: "cur_image loadedState = Some exampleImage"
    by (simp add: loadedState_def)
  have b: "exampleImage \<noteq> []" by (simp add: exampleImage_def)
  have c: "fst (exampleService exampleImage) = Inr ?r"
    by (simp add: exampleService_def)
  have d: "length (colors ?r) \<ge> 2" by simp
  have "background (settings (fst (handleSmartPalette exampleService loadedState)))
      = (background (settings loadedState))
          \<lparr>bg_type := Gradient,
           bg_gradient := \<lparr>g_start = hd (colors ?r), g_end = last (colors ?r),
                            g_direction = ToBottomRight\<rparr>\<rparr>"
    using handleSmartPalette_gradient
      [where gen = exampleService and st = loadedState, OF a b c d] .
  then show ?thesis using a b c d by simp
qed

text \<open>
  Claim C5, as stated, fails: what is returned without a credential is not what is
  returned when the remote call fails.
\<close>

theorem generateSmartPalette_fallbacks_differ:
  "fst (generateSmartPalette geminiNoKey exampleImage)
     \<noteq> fst (generateSmartPalette geminiDown exampleImage)"
  by (simp add: generateSmartPalette_def geminiNoKey_def geminiDown_def requestPalette_def
        rejecting_def fallbackNoKey_def fallbackFailed_def)

text \<open>
  Claim C5, amended. \<open>generateSmartPalette\<close> never rejects: for every input the promise
  resolves. Without a credential it resolves to the fixed palette
  \<open>#3b82f6, #8b5cf6, #ec4899\<close>, which has no description, and logs one warning. With a
  credential, when the remote call fails, that is when it rejects, when its text is
  missing or empty, or when the text does not parse, it resolves to the other fixed
  palette \<open>#18181b, #27272a, #3f3f46\<close> with the description \<open>Fallback Dark Mode\<close>, and logs
  one error. The two palettes differ. When the text parses, the promise resolves to
  the value parsed, whatever it is, and nothing is logged.
\<close>

theorem generateSmartPalette_fallbacks:
  "(\<exists>v. fst (generateSmartPalette g base64Image) = Inr v)
   \<and> (apiKey g = [] \<longrightarrow>
        generateSmartPalette g base64Image
          = (Inr fallbackNoKey, [ConsoleWarn ''No API Key provided for Gemini.'']))
   \<and> (apiKey g \<noteq> []
        \<and> (generateContent g (paletteRequest base64Image) = None
           \<or> generateContent g (paletteRequest base64Image) = Some None
           \<or> generateContent g (paletteRequest base64Image) = Some (Some [])
           \<or> (\<exists>t. generateContent g (paletteRequest base64Image) = Some (Some t)
                 \<and> JSON_parse g t = None))
        \<longrightarrow> generateSmartPalette g base64Image
          = (Inr fallbackFailed, [ConsoleError ''Gemini analysis failed:'']))
   \<and> (\<forall>t v. apiKey g \<noteq> []
          \<and> generateContent g (paletteRequest base64Image) = Some (Some t)
          \<and> t \<noteq> [] \<and> JSON_parse g t = Some v
        \<longrightarrow> generateSmartPalette g base64Image = (Inr v, []))
   \<and> fallbackNoKey
       = JsObject [(''colors'',
           JsArray [JsString ''#3b82f6'', JsString ''#8b5cf6'', JsString ''#ec4899''])]
   \<and> fallbackFailed
       = JsObject [(''colors'',
           JsArray [JsString ''#18181b'', JsString ''#27272a'', JsString ''#3f3f46'']),
          (''description'', JsString ''Fallback Dark Mode'')]
   \<and> fallbackNoKey \<noteq> fallbackFailed"
proof -
  have resolves: "\<exists>v. fst (generateSmartPalette g base64Image) = Inr v"
    by (cases "requestPalette g base64Image") (simp_all add: generateSmartPalette_def)
  have nokey: "apiKey g = [] \<longrightarrow>
        generateSmartPalette g base64Image
          = (Inr fallbackNoKey, [ConsoleWarn ''No API Key provided for Gemini.''])"
    by (simp add: generateSmartPalette_def)
  have failed: "apiKey g \<noteq> []
        \<and> (generateContent g (paletteRequest base64Image) = None
           \<or> generateContent g (paletteRequest base64Image) = Some None
           \<or> generateContent g (paletteRequest base64Image) = Some (Some [])
           \<or> (\<exists>t. generateContent g (paletteRequest base64Image) = Some (Some t)
                 \<and> JSON_parse g t = None))
        \<longrightarrow> generateSmartPalette g base64Image
          = (Inr fallbackFailed, [ConsoleError ''Gemini analysis failed:''])"
    by (auto simp: generateSmartPalette_def requestPalette_def)
  have parsed: "\<forall>t v. apiKey g \<noteq> []
          \<and> generateContent g (paletteRequest base64Image) = Some (Some t)
          \<and> t \<noteq> [] \<and> JSON_parse g t = Some v
        \<longrightarrow> generateSmartPalette g base64Image = (Inr v, [])"
    by (simp add: generateSmartPalette_def requestPalette_def)
  have differ: "fallbackNoKey \<noteq> fallbackFailed"
    by (simp add: fallbackNoKey_def fallbackFailed_def)
  show ?thesis
    using resolves nokey failed parsed differ
    by (simp add: fallbackNoKey_def fallbackFailed_def)
qed

theorem generateSmartPalette_fallbacks_witness:
  "generateSmartPalette geminiNoKey exampleImage
     = (Inr fallbackNoKey, [ConsoleWarn ''No API Key provided for Gemini.''])
   \<and> generateSmartPalette geminiDown exampleImage
     = (Inr fallbackFailed, [ConsoleError ''Gemini analysis failed:''])
   \<and> generateSmartPalette geminiSilent exampleImage
     = (Inr fallbackFailed, [ConsoleError ''Gemini analysis failed:''])
   \<and> generateSmartPalette geminiEmpty exampleImage
     = (Inr fallbackFailed, [ConsoleError ''Gemini analysis failed:''])
   \<and> generateSmartPalette geminiGarbled exampleImage
     = (Inr fallbackFailed, [ConsoleError ''Gemini analysis failed:''])
   \<and> generateSmartPalette geminiNull exampleImage = (Inr JsNull, [])
   \<and> generateSmartPalette geminiUp exampleImage
     = (Inr (JsObject [(''colors'',
          JsArray [JsString ''#111111'', JsString ''#222222'', JsString ''#333333''])]), [])"
proof -
  have k0: "apiKey geminiNoKey = []" by (simp add: geminiNoKey_def)
  have k1: "apiKey geminiDown \<noteq> []" by (simp add: geminiDown_def)
  have k2: "apiKey geminiSilent \<noteq> []" by (simp add: geminiSilent_def)
  have k3: "apiKey geminiEmpty \<noteq> []" by (simp add: geminiEmpty_def)
  have k4: "apiKey geminiGarbled \<noteq> []" by (simp add: geminiGarbled_def)
  have k5: "apiKey geminiNull \<noteq> []" by (simp add: geminiNull_def)
  have k6: "apiKey geminiUp \<noteq> []" by (simp add: geminiUp_def)
  have r1: "generateContent geminiDown (paletteRequest exampleImage) = None"
    by (simp add: geminiDown_def rejecting_def)
  have r2: "generateContent geminiSilent (paletteRequest exampleImage) = Some None"
    by (simp add: geminiSilent_def noText_def)
  have r3: "generateContent geminiEmpty (paletteRequest exampleImage) = Some (Some [])"
    by (simp add: geminiEmpty_def emptyText_def)
  have r4: "generateContent geminiGarbled (paletteRequest exampleImage)
        = Some (Some ''<html>Bad Gateway</html>'')
      \<and> JSON_parse geminiGarbled ''<html>Bad Gateway</html>'' = None"
    by (simp add: geminiGarbled_def garbledText_def exampleParse_def)
  have r5: "generateContent geminiNull (paletteRequest exampleImage) = Some (Some ''null'')
      \<and> ''null'' \<noteq> [] \<and> JSON_parse geminiNull ''null'' = Some JsNull"
    by (simp add: geminiNull_def nullText_def exampleParse_def)
  have r6: \<open>generateContent geminiUp (paletteRequest exampleImage)
        = Some (Some ''{"colors":["#111111","#222222","#333333"]}'')
      \<and> ''{"colors":["#111111","#222222","#333333"]}'' \<noteq> []
      \<and> JSON_parse geminiUp ''{"colors":["#111111","#222222","#333333"]}''
        = Some (JsObject [(''colors'',
            JsArray [JsString ''#111111'', JsString ''#222222'', JsString ''#333333''])])\<close>
    by (simp add: geminiUp_def answering_def exampleParse_def)
  have c0: "generateSmartPalette geminiNoKey exampleImage
     = (Inr fallbackNoKey, [ConsoleWarn ''No API Key provided for Gemini.''])"
    using generateSmartPalette_fallbacks [of geminiNoKey exampleImage] k0 by blast
  have c1: "generateSmartPalette geminiDown exampleImage
     = (Inr fallbackFailed, [ConsoleError ''Gemini analysis failed:''])"
    using generateSmartPalette_fallbacks [of geminiDown exampleImage] k1 r1 by blast
  have c2: "generateSmartPalette geminiSilent exampleImage
     = (Inr fallbackFailed, [ConsoleError ''Gemini analysis failed:''])"
    using generateSmartPalette_fallbacks [of geminiSilent exampleImage] k2 r2 by blast
  have c3: "generateSmartPalette geminiEmpty exampleImage
     = (Inr fallbackFailed, [ConsoleError ''Gemini analysis failed:''])"
    using generateSmartPalette_fallbacks [of geminiEmpty exampleImage] k3 r3 by blast
  have c4: "generateSmartPalette geminiGarbled exampleImage
     = (Inr fallbackFailed, [ConsoleError ''Gemini analysis failed:''])"
    using generateSmartPalette_fallbacks [of geminiGarbled exampleImage] k4 r4 by blast
  have c5: "generateSmartPalette geminiNull exampleImage = (Inr JsNull, [])"
    using generateSmartPalette_fallbacks [of geminiNull exampleImage] k5 r5 by blast
  have c6: "generateSmartPalette geminiUp exampleImage
     = (Inr (JsObject [(''colors'',
          JsArray [JsString ''#111111'', JsString ''#222222'', JsString ''#333333''])]), [])"
    using generateSmartPalette_fallbacks [of geminiUp exampleImage] k6 r6 by blast
  show ?thesis
    using c0 c1 c2 c3 c4 c5 c6 by blast
qed

text \<open>
  Claim C6. A download in the \<open>jpeg\<close> format makes one call of the rasterization
  library, \<open>toJpeg\<close>, and its options carry a background colour: the solid colour of
  the background when its type is solid, and \<open>#000\<close> otherwise.
\<close>

theorem jpeg_backing_color:
  assumes "outputFormat s = Jpeg" and "src \<noteq> []"
  shows "filter isRasterCall (fst (handleDownload env s (Some node) (Some src)))
      = [CallToJpeg node (jpegOptions s)]
    \<and> opt_backgroundColor (jpegOptions s)
      = Some (if bg_type (background s) = Solid then bg_solid (background s) else ''#000'')"
  using assms
  by (cases "env_toJpeg env node (jpegOptions s)")
     (auto simp: handleDownload_def truthy_def Let_def rasterize_def triggerDownload_def
        jpegOptions_def exportBackgroundColor_def split: option.splits)

theorem jpeg_backing_color_witness:
  "outputFormat (initialSettings\<lparr>background := (background initialSettings)\<lparr>bg_type := Solid\<rparr>\<rparr>) = Jpeg
   \<and> exampleImage \<noteq> []
   \<and> opt_backgroundColor (jpegOptions
        (initialSettings\<lparr>background := (background initialSettings)\<lparr>bg_type := Solid\<rparr>\<rparr>))
       = Some ''#1a1a1a''
   \<and> filter isRasterCall (fst (handleDownload exampleEnv
        (initialSettings\<lparr>background := (background initialSettings)\<lparr>bg_type := Solid\<rparr>\<rparr>)
        (Some (renderFrame initialSettings exampleImage)) (Some exampleImage)))
       = [CallToJpeg (renderFrame initialSettings exampleImage)
            (jpegOptions (initialSettings\<lparr>background := (background initialSettings)\<lparr>bg_type := Solid\<rparr>\<rparr>))]"
proof -
  let ?s = "initialSettings\<lparr>background := (background initialSettings)\<lparr>bg_type := Solid\<rparr>\<rparr>"
  have a: "outputFormat ?s = Jpeg" by (simp add: initialSettings_def)
  have b: "exampleImage \<noteq> []" by (simp add: exampleImage_def)
  have c: "(if bg_type (background ?s) = Solid then bg_solid (background ?s) else ''#000'')
             = ''#1a1a1a''"
    by (simp add: initialSettings_def)
  show ?thesis
    using a b jpeg_backing_color [OF a b, of exampleEnv "renderFrame initialSettings exampleImage"]
    unfolding c by blast
qed

text \<open>
  Claim C8. A download in the \<open>webp\<close> format whose \<open>toBlob\<close> call yields a blob, and
  whose object URL is a non-empty string (as every blob URL is), creates the object URL
  of the blob, clicks a link to that URL and then revokes that URL, in this order; in
  the blob URL store replayed over the trace the URL is not live afterwards, and no
  URL is live that was not live before.
\<close>

theorem webp_object_url_released:
  assumes "outputFormat s = Webp" and "src \<noteq> []"
    and "env_toBlob env node webpOptions = Some (Some blob)"
    and "env_createObjectURL env blob \<noteq> []"
  shows "fst (handleDownload env s (Some node) (Some src))
      = (case env_exportBtn env of None \<Rightarrow> [] | Some t \<Rightarrow> [SetBtnText ''Generating...''])
        @ [Settle 100, CallToBlob node webpOptions,
           CreateObjectURL blob (env_createObjectURL env blob),
           LinkClick ''screenshot-studio-export.webp'' (env_createObjectURL env blob),
           RevokeObjectURL (env_createObjectURL env blob)]
        @ (case env_exportBtn env of None \<Rightarrow> []
           | Some t \<Rightarrow> if t \<noteq> [] then [SetBtnText t] else [])
    \<and> liveObjectURLs (fst (handleDownload env s (Some node) (Some src))) live
      = removeAll (env_createObjectURL env blob) live"
proof -
  have tr: "fst (handleDownload env s (Some node) (Some src))
      = (case env_exportBtn env of None \<Rightarrow> [] | Some t \<Rightarrow> [SetBtnText ''Generating...''])
        @ [Settle 100, CallToBlob node webpOptions,
           CreateObjectURL blob (env_createObjectURL env blob),
           LinkClick ''screenshot-studio-export.webp'' (env_createObjectURL env blob),
           RevokeObjectURL (env_createObjectURL env blob)]
        @ (case env_exportBtn env of None \<Rightarrow> []
           | Some t \<Rightarrow> if t \<noteq> [] then [SetBtnText t] else [])"
    using assms
    by (simp add: handleDownload_def truthy_def Let_def rasterize_def triggerDownload_def)
  have "liveObjectURLs (fst (handleDownload env s (Some node) (Some src))) live
      = removeAll (env_createObjectURL env blob) live"
    unfolding tr by (cases "env_exportBtn env") simp_all
  with tr show ?thesis by blast
qed

theorem webp_object_url_released_witness:
  "outputFormat (initialSettings\<lparr>outputFormat := Webp\<rparr>) = Webp \<and> exampleImage \<noteq> []
   \<and> env_toBlob exampleEnv (renderFrame initialSettings exampleImage) webpOptions
        = Some (Some exampleBlob)
   \<and> env_createObjectURL exampleEnv exampleBlob \<noteq> []
   \<and> liveObjectURLs (fst (handleDownload exampleEnv (initialSettings\<lparr>outputFormat := Webp\<rparr>)
        (Some (renderFrame initialSettings exampleImage)) (Some exampleImage))) [] = []"
proof -
  have a: "outputFormat (initialSettings\<lparr>outputFormat := Webp\<rparr>) = Webp" by simp
  have b: "exampleImage \<noteq> []" by (simp add: exampleImage_def)
  have c: "env_toBlob exampleEnv (renderFrame initialSettings exampleImage) webpOptions
        = Some (Some exampleBlob)"
    by (simp add: exampleEnv_def blobOf_def)
  have d: "env_createObjectURL exampleEnv exampleBlob \<noteq> []"
    by (simp add: exampleEnv_def objectUrlOf_def)
  have "liveObjectURLs (fst (handleDownload exampleEnv (initialSettings\<lparr>outputFormat := Webp\<rparr>)
        (Some (renderFrame initialSettings exampleImage)) (Some exampleImage))) []
      = removeAll (env_createObjectURL exampleEnv exampleBlob) []"
    using webp_object_url_released [OF a b c d, of "[]"] by blast
  then show ?thesis using a b c d by simp
qed

lemma processFile_non_image:
  "\<not> startsWith (file_type f) ''image/'' \<Longrightarrow> processFile (Some f) st = (st, [])"
  by (simp add: processFile_def)

lemma pasteItems_non_image:
  "\<forall>it \<in> set items. \<forall>g. item_getAsFile it = Some g \<longrightarrow> \<not> startsWith (file_type g) ''image/''
   \<Longrightarrow> fst (pasteItems items st) = st \<and> set (snd (pasteItems items st)) \<subseteq> {PreventDefault}"
proof (induction items)
  case Nil
  then show ?case by simp
next
  case (Cons it items)
  show ?case
  proof (cases "str_includes (item_type it) ''image''")
    case True
    then show ?thesis
      using Cons.prems by (cases "item_getAsFile it") (simp_all add: processFile_non_image)
  next
    case False
    then show ?thesis using Cons by simp
  qed
qed

text \<open>
  Claim C9. A file whose MIME type does not begin with \<open>image/\<close> changes nothing when it
  comes from the file picker or is dropped on the canvas, and a paste changes nothing
  when no file on the clipboard has a type beginning with \<open>image/\<close>: the application
  state, with the current image, is the one before, and the only call made is
  \<open>preventDefault\<close> on the event; nothing is reported or logged.
\<close>

theorem non_image_ingestion_noop:
  assumes "\<not> startsWith (file_type f) ''image/''"
    and "\<forall>it \<in> set items. \<forall>g. item_getAsFile it = Some g \<longrightarrow>
           \<not> startsWith (file_type g) ''image/''"
  shows "processFile (Some f) st = (st, [])
    \<and> handleUpload (Some (f # fs)) st = (st, [])
    \<and> handleDrop (Some (f # fs)) st = (st, [PreventDefault])
    \<and> fst (handlePaste (Some items) st) = st
    \<and> set (snd (handlePaste (Some items) st)) \<subseteq> {PreventDefault}"
proof -
  have p: "processFile (Some f) st = (st, [])"
    using assms(1) by (rule processFile_non_image)
  have "fst (pasteItems items st) = st \<and> set (snd (pasteItems items st)) \<subseteq> {PreventDefault}"
    using assms(2) by (rule pasteItems_non_image)
  then show ?thesis
    using p by (simp add: handleUpload_def handleDrop_def handlePaste_def firstFile_def)
qed

theorem non_image_ingestion_noop_witness:
  "\<not> startsWith (file_type pdfFile) ''image/''
   \<and> str_includes (item_type oddItem) ''image''
   \<and> handleUpload (Some [pdfFile]) loadedState = (loadedState, [])
   \<and> handleDrop (Some [pdfFile]) loadedState = (loadedState, [PreventDefault])
   \<and> fst (handlePaste (Some [textItem, oddItem]) loadedState) = loadedState"
proof -
  have a: "\<not> startsWith (file_type pdfFile) ''image/''" by (simp add: pdfFile_def)
  have b: "\<forall>it \<in> set [textItem, oddItem].
         \<forall>g. item_getAsFile it = Some g \<longrightarrow> \<not> startsWith (file_type g) ''image/''"
    by (auto simp: textItem_def oddItem_def)
  have c: "str_includes (item_type oddItem) ''image''"
    by (simp add: oddItem_def)
  show ?thesis
    using a c non_image_ingestion_noop [OF a b, where fs = "[]" and st = loadedState] by blast
qed

text \<open>
  Claim C10. When the export node is absent or no image is loaded (\<open>null\<close>, or the empty
  string, which is falsy as well), the download and the copy to the clipboard return at
  once: no call is made on the rasterization library, the document, the clipboard or
  the button, and no exception leaves the handler.
\<close>

theorem export_guard_noop:
  assumes "exportRef = None \<or> \<not> truthy img"
  shows "handleDownload env s exportRef img = ([], False)
    \<and> handleCopy env s exportRef img = ([], False)"
  using assms by (auto simp: handleDownload_def handleCopy_def split: option.splits)

theorem export_guard_noop_witness:
  "\<not> truthy None
   \<and> handleDownload exampleEnv initialSettings (Some (renderFrame initialSettings exampleImage)) None
       = ([], False)
   \<and> handleCopy exampleEnv initialSettings (Some (renderFrame initialSettings exampleImage)) None
       = ([], False)
   \<and> exportNode (Canvas initialSettings None 1) = None
   \<and> handleDownload exampleEnv initialSettings (exportNode (Canvas initialSettings None 1))
        (Some exampleImage) = ([], False)
   \<and> handleCopy exampleEnv initialSettings (exportNode (Canvas initialSettings None 1))
        (Some exampleImage) = ([], False)"
proof -
  have a: "Some (renderFrame initialSettings exampleImage) = None \<or> \<not> truthy None"
    by (simp add: truthy_def)
  have b: "exportNode (Canvas initialSettings None 1) = None \<or> \<not> truthy (Some exampleImage)"
    by (simp add: Canvas_def)
  have a': "\<not> truthy None" by (simp add: truthy_def)
  have b': "exportNode (Canvas initialSettings None 1) = None" by (simp add: Canvas_def)
  show ?thesis
    using a' b' export_guard_noop [OF a, of exampleEnv initialSettings]
      export_guard_noop [OF b, of exampleEnv initialSettings]
    by blast
qed

end
